theory Spec2Isabelle
  imports Complex_Main
begin

section \<open>Time to interactive: \<open>lighthouse-core/audits/time-to-interactive.js\<close>\<close>

text \<open>
  JavaScript numbers are doubles. They are modelled as \<open>real\<close>, in two ways. In
  \<open>search_loop\<close> and \<open>TTI_audit\<close> the sums are exact, which is what the code computes
  whenever no sum is rounded (integer times, for instance). In \<open>search_loop_fl\<close> every
  sum goes through a rounding function \<open>rnd\<close>, a parameter that stands for rounding to
  the nearest double, so that what is proved there does not rest on identities of exact
  arithmetic such as \<open>(x - 50) + 50 = x\<close> or \<open>x + 50 > x\<close>. \<open>NaN\<close> and overflow are
  outside both. The one infinite value the audit uses, the initial
  \<open>currentLatency = Infinity\<close>, is a constructor of its own.
\<close>

datatype js_number = Infinity | Num real

text \<open>\<open>a > b\<close> for a left operand that may be \<open>Infinity\<close>.\<close>

fun js_gt :: "js_number \<Rightarrow> real \<Rightarrow> bool" where
  "js_gt Infinity b = True"
| "js_gt (Num a) b = (b < a)"

text \<open>
  One entry of the array \<open>TracingProcessor.getRiskToResponsiveness\<close> returns:
  \<open>{percentile, time}\<close>.
\<close>

record latency =
  percentile :: real
  time :: real

text \<open>
  An entry of \<open>foundLatencies\<close>: \<open>Object.assign({}, estLatency, {startTime})\<close>. When
  \<open>estLatency\<close> is \<open>undefined\<close> the object has the field \<open>startTime\<close> only.
\<close>

record window_sample =
  sample_estimate :: "latency option"
  sample_startTime :: real

text \<open>One element of \<open>visualProgress\<close>: \<open>{progress, time}\<close>.\<close>

record progress_sample =
  progress :: real
  frame_time :: real

text \<open>
  What \<open>audit\<close> reads from its collaborators, none of which is part of the file:
  \<open>FMPMetric.audit(artifacts)\<close> gives \<open>rawValue\<close> and
  \<open>extendedInfo.timings.{fMPfull, navStart}\<close>; \<open>tracingProcessor.init\<close> gives
  \<open>model.bounds.max\<close>; \<open>artifacts.Speedline.frames\<close> gives, per frame,
  \<open>(getProgress(), getTimeStamp())\<close>; and
  \<open>TracingProcessor.getRiskToResponsiveness(model, traceContents, startTime, endTime)\<close>
  is the function \<open>riskToResponsiveness\<close> of the two times, assumed to return its
  array without throwing.
\<close>

record tti_artifacts =
  fmp_rawValue :: real
  fMPfull :: real
  navStart :: real
  bounds_max :: real
  frames :: "(real \<times> real) list"
  riskToResponsiveness :: "real \<Rightarrow> real \<Rightarrow> latency list"

record tti_timings =
  fMP :: real
  visuallyReadyT :: real
  mainThreadAvail :: real

record tti_extendedInfo =
  timings :: tti_timings
  expectedLatencyAtTTI :: js_number
  foundLatencies :: "window_sample list"

text \<open>
  The object handed to \<open>TTIMetric.generateAuditResult\<close> (a method of the base class
  \<open>Audit\<close>, which is not part of the file): the model records the argument.
\<close>

record tti_result =
  result_value :: real
  rawValue :: real
  optimalValue :: string
  extendedInfo :: tti_extendedInfo

datatype js_error = TypeError

text \<open>
  How the body of the \<open>then\<close> callback ends: with the audit result, with the bare
  \<open>return;\<close> of line 96 (the promise resolves to \<open>undefined\<close>), or with an
  exception (the promise is rejected).
\<close>

datatype 'a completion = Returned 'a | ReturnedUndefined | Threw js_error

text \<open>
  The variables of the search loop (lines 81 to 106). \<open>queries\<close> and \<open>iterations\<close>
  are not variables of the source: \<open>queries\<close> logs, in order, the \<open>(startTime, endTime)\<close>
  of each call of \<open>getRiskToResponsiveness\<close>, and \<open>iterations\<close> counts the executions
  of the loop body.
\<close>

record loop_state =
  startTime :: real
  currentLatency :: js_number
  found :: "window_sample list"
  queries :: "(real \<times> real) list"
  iterations :: nat

datatype loop_exit = LoopDone | ReturnUndefined | ThrowTypeError

definition threshold :: real where
  "threshold = 50"

definition target_percentile :: real where
  "target_percentile = 9 / 10"

text \<open>The measure of the loop: the number of 50ms steps left before the end of the trace.\<close>

lemma ceiling_step:
  fixes m x :: real
  shows "\<lceil>(m - (x + 50)) / 50\<rceil> < \<lceil>(m - x) / 50\<rceil>"
proof -
  have "(m - (x + 50)) / 50 = (m - x) / 50 - 1"
    by (simp add: field_simps)
  hence "\<lceil>(m - (x + 50)) / 50\<rceil> = \<lceil>(m - x) / 50\<rceil> - 1"
    by (simp only: ceiling_diff_one)
  thus ?thesis by simp
qed

lemma ceiling_positive:
  fixes m x :: real
  assumes "\<not> m < 550 + x"
  shows "0 < \<lceil>(m - x) / 50\<rceil>"
proof -
  have "(m - x) / 50 \<ge> 11" using assms by simp
  thus ?thesis by linarith
qed

text \<open>
  Lines 89 to 106, in exact arithmetic. The body first advances \<open>startTime\<close> by 50 and sets
  \<open>endTime = startTime + 500\<close>; if \<open>endTime > endOfTraceTime\<close> it returns
  \<open>undefined\<close>; otherwise it queries the estimator, looks for the entry whose
  percentile is 0.9, pushes the sample, and reads \<open>estLatency.time\<close> (line 103), which
  throws a \<open>TypeError\<close> when no entry was found.
\<close>

function search_loop :: "(real \<Rightarrow> real \<Rightarrow> latency list) \<Rightarrow> real \<Rightarrow> loop_state
    \<Rightarrow> loop_exit \<times> loop_state" where
  "search_loop est endOfTraceTime s =
     (if js_gt (currentLatency s) threshold then
        (let startTime' = startTime s + 50;
             endTime = startTime' + 500;
             s1 = s\<lparr>startTime := startTime', iterations := Suc (iterations s)\<rparr>
         in if endTime > endOfTraceTime then (ReturnUndefined, s1)
            else
              (let latencies = est startTime' endTime;
                   s2 = s1\<lparr>queries := queries s1 @ [(startTime', endTime)]\<rparr>;
                   estLatency = find (\<lambda>res. percentile res = target_percentile) latencies;
                   s3 = s2\<lparr>found := found s2 @
                          [\<lparr>sample_estimate = estLatency, sample_startTime = startTime'\<rparr>]\<rparr>
               in case estLatency of
                    None \<Rightarrow> (ThrowTypeError, s3)
                  | Some l \<Rightarrow>
                      search_loop est endOfTraceTime (s3\<lparr>currentLatency := Num (time l)\<rparr>)))
      else (LoopDone, s))"
  by pat_completeness auto
termination
proof (relation "measure (\<lambda>(est, endOfTraceTime, s). nat \<lceil>(endOfTraceTime - startTime s) / 50\<rceil>)")
  show "wf (measure (\<lambda>(est, endOfTraceTime, s). nat \<lceil>(endOfTraceTime - startTime s) / 50\<rceil>))"
    by simp
qed (simp add: ceiling_step ceiling_positive)

declare search_loop.simps [simp del]

text \<open>
  Lines 68 to 73: \<open>artifacts.Speedline.frames.map(...)\<close>. A frame is the pair of what
  its \<open>getProgress()\<close> and \<open>getTimeStamp()\<close> return.
\<close>

definition visualProgress :: "tti_artifacts \<Rightarrow> progress_sample list" where
  "visualProgress a = map (\<lambda>(p, t). \<lparr>progress = p, frame_time = t\<rparr>) (frames a)"

text \<open>Line 74.\<close>

definition fMPts :: "tti_artifacts \<Rightarrow> real" where
  "fMPts a = fMPfull a + navStart a"

text \<open>
  Lines 75 to 77, with the reference time and the progress threshold as parameters:
  \<open>find\<close> returns the first element, in array order, whose time is at least
  \<open>notBefore\<close> and whose progress is at least \<open>minProgress\<close>, and \<open>undefined\<close>
  (\<open>None\<close>) when there is none.
\<close>

definition firstReady :: "progress_sample list \<Rightarrow> real \<Rightarrow> real \<Rightarrow> progress_sample option" where
  "firstReady samples notBefore minProgress =
     find (\<lambda>frame. frame_time frame \<ge> notBefore \<and> progress frame \<ge> minProgress) samples"

definition visuallyReady :: "tti_artifacts \<Rightarrow> progress_sample option" where
  "visuallyReady a = firstReady (visualProgress a) (fMPts a) 85"

text \<open>
  The lookup as a call on the array: its result, and the array as the call leaves it.
  \<open>Array.prototype.find\<close> does not modify the array and the predicate of lines 75 to
  77 only reads its argument.
\<close>

definition firstReady_call :: "progress_sample list \<Rightarrow> real \<Rightarrow> real
    \<Rightarrow> progress_sample option \<times> progress_sample list" where
  "firstReady_call samples notBefore minProgress = (firstReady samples notBefore minProgress, samples)"

text \<open>Lines 81 to 86: the variables of the loop before its first test.\<close>

definition initial_state :: "real \<Rightarrow> real \<Rightarrow> loop_state" where
  "initial_state fmpTiming visuallyReadyTiming =
     \<lparr>startTime = max fmpTiming visuallyReadyTiming - 50,
      currentLatency = Infinity,
      found = [],
      queries = [],
      iterations = 0\<rparr>"

text \<open>Lines 108 to 124: the result built after the loop.\<close>

definition audit_result :: "real \<Rightarrow> real \<Rightarrow> loop_state \<Rightarrow> tti_result" where
  "audit_result fmpTiming visuallyReadyTiming s =
     \<lparr>result_value = startTime s,
      rawValue = startTime s,
      optimalValue = ''TBD'',
      extendedInfo =
        \<lparr>timings = \<lparr>fMP = fmpTiming, visuallyReadyT = visuallyReadyTiming,
                     mainThreadAvail = startTime s\<rparr>,
         expectedLatencyAtTTI = currentLatency s,
         foundLatencies = found s\<rparr>\<rparr>"

text \<open>
  The run of the search loop inside \<open>audit\<close>: \<open>None\<close> when line 78 throws before the
  loop is reached (\<open>visuallyReady\<close> is \<open>undefined\<close>), otherwise how the loop ends and
  its variables at that point.
\<close>

definition TTI_search :: "tti_artifacts \<Rightarrow> (loop_exit \<times> loop_state) option" where
  "TTI_search a =
     (case visuallyReady a of
        None \<Rightarrow> None
      | Some vr \<Rightarrow>
          Some (search_loop (riskToResponsiveness a) (bounds_max a)
                  (initial_state (fmp_rawValue a) (frame_time vr - navStart a))))"

text \<open>
  \<open>TTIMetric.audit\<close>, lines 53 to 126: the body of the \<open>then\<close> callback.
  \<open>visuallyReady.time\<close> on \<open>undefined\<close> (line 78) throws a \<open>TypeError\<close>.
\<close>

definition TTI_audit :: "tti_artifacts \<Rightarrow> tti_result completion" where
  "TTI_audit a =
     (let fmpTiming = fmp_rawValue a;
          endOfTraceTime = bounds_max a
      in case visuallyReady a of
           None \<Rightarrow> Threw TypeError
         | Some vr \<Rightarrow>
             (let visuallyReadyTiming = frame_time vr - navStart a
              in case search_loop (riskToResponsiveness a) endOfTraceTime
                        (initial_state fmpTiming visuallyReadyTiming) of
                   (ReturnUndefined, s) \<Rightarrow> ReturnedUndefined
                 | (ThrowTypeError, s) \<Rightarrow> Threw TypeError
                 | (LoopDone, s) \<Rightarrow> Returned (audit_result fmpTiming visuallyReadyTiming s)))"

text \<open>The windows handed to the estimator during the audit, in order.\<close>

definition estimator_calls :: "tti_artifacts \<Rightarrow> (real \<times> real) list" where
  "estimator_calls a = (case TTI_search a of None \<Rightarrow> [] | Some (ex, s) \<Rightarrow> queries s)"

text \<open>The number of executions of the loop body during the audit.\<close>

definition loop_iterations :: "tti_artifacts \<Rightarrow> nat" where
  "loop_iterations a = (case TTI_search a of None \<Rightarrow> 0 | Some (ex, s) \<Rightarrow> iterations s)"

subsection \<open>One execution of the loop body\<close>

text \<open>
  The variables after lines 91 to 102 of a loop body that passes the bounds check: the
  window is advanced, the estimator queried, and the sample pushed. Line 105 then sets
  \<open>currentLatency\<close>.
\<close>

definition advance :: "(real \<Rightarrow> real \<Rightarrow> latency list) \<Rightarrow> loop_state \<Rightarrow> loop_state" where
  "advance est s =
     s\<lparr>startTime := startTime s + 50,
       iterations := Suc (iterations s),
       queries := queries s @ [(startTime s + 50, startTime s + 50 + 500)],
       found := found s @
         [\<lparr>sample_estimate =
              find (\<lambda>res. percentile res = target_percentile)
                (est (startTime s + 50) (startTime s + 50 + 500)),
            sample_startTime = startTime s + 50\<rparr>]\<rparr>"

subsection \<open>The loop in double arithmetic\<close>

text \<open>
  Line 81 with the subtraction rounded: \<open>rnd\<close> maps the exact result of an operation to
  the double the code gets.
\<close>

definition initial_state_fl :: "(real \<Rightarrow> real) \<Rightarrow> real \<Rightarrow> real \<Rightarrow> loop_state" where
  "initial_state_fl rnd fmpTiming visuallyReadyTiming =
     \<lparr>startTime = rnd (max fmpTiming visuallyReadyTiming - 50),
      currentLatency = Infinity,
      found = [],
      queries = [],
      iterations = 0\<rparr>"

text \<open>
  Lines 89 to 106 with both sums rounded (\<open>startTime += 50\<close> and
  \<open>endTime = startTime + 500\<close>). In doubles the loop need not end (an addition of 50
  can be absorbed), so the function takes fuel, one unit per execution of the body; the
  exit is \<open>None\<close> when the fuel runs out while the loop condition still holds.
\<close>

fun search_loop_fl :: "(real \<Rightarrow> real) \<Rightarrow> (real \<Rightarrow> real \<Rightarrow> latency list) \<Rightarrow> real \<Rightarrow> nat
    \<Rightarrow> loop_state \<Rightarrow> loop_exit option \<times> loop_state" where
  "search_loop_fl rnd est endOfTraceTime 0 s =
     (if js_gt (currentLatency s) threshold then (None, s) else (Some LoopDone, s))"
| "search_loop_fl rnd est endOfTraceTime (Suc fuel) s =
     (if js_gt (currentLatency s) threshold then
        (let startTime' = rnd (startTime s + 50);
             endTime = rnd (startTime' + 500);
             s1 = s\<lparr>startTime := startTime', iterations := Suc (iterations s)\<rparr>
         in if endTime > endOfTraceTime then (Some ReturnUndefined, s1)
            else
              (let latencies = est startTime' endTime;
                   s2 = s1\<lparr>queries := queries s1 @ [(startTime', endTime)]\<rparr>;
                   estLatency = find (\<lambda>res. percentile res = target_percentile) latencies;
                   s3 = s2\<lparr>found := found s2 @
                          [\<lparr>sample_estimate = estLatency, sample_startTime = startTime'\<rparr>]\<rparr>
               in case estLatency of
                    None \<Rightarrow> (Some ThrowTypeError, s3)
                  | Some l \<Rightarrow>
                      search_loop_fl rnd est endOfTraceTime fuel (s3\<lparr>currentLatency := Num (time l)\<rparr>)))
      else (Some LoopDone, s))"


section \<open>Start URL in the cache: \<open>lighthouse-core/audits/cache-start-url.js\<close>\<close>

text \<open>
  The parts of \<open>artifacts\<close> the audit reads. A field that may be absent
  (\<open>undefined\<close>) is an \<open>option\<close>; \<open>CacheContents\<close> is \<open>None\<close> when it is not an
  array, and its entries are strings (\<open>Array<string>\<close> in \<open>Artifacts.js\<close>). Of the
  manifest's \<open>start_url\<close> node the audit reads \<open>raw\<close> only. Strings are lists of
  characters.
\<close>

record start_url_node =
  raw :: "string option"

record manifest_value =
  start_url :: "start_url_node option"

record manifest_node =
  node_value :: "manifest_value option"

record cache_artifacts =
  Manifest :: "manifest_node option"
  CacheContents :: "string list option"
  URL :: "string option"

text \<open>
  \<open>.replace(/\?utm_([^=]*)=([^&]|$)*/, '')\<close> of line 60: the leftmost match is removed.
  A match starts at \<open>?utm_\<close> and needs an \<open>=\<close> somewhere after it; \<open>[^=]*\<close> then
  runs to the first \<open>=\<close>, and \<open>([^&]|$)*\<close> from there to the next \<open>&\<close> or to the
  end of the string.
\<close>

fun replace_utm :: "string \<Rightarrow> string" where
  "replace_utm [] = []"
| "replace_utm (c # cs) =
     (if take 5 (c # cs) = ''?utm_'' \<and> CHR ''='' \<in> set (drop 5 (c # cs))
      then dropWhile (\<lambda>x. x \<noteq> CHR ''&'') (tl (dropWhile (\<lambda>x. x \<noteq> CHR ''='') (drop 5 (c # cs))))
      else c # replace_utm cs)"

text \<open>\<open>.replace(/\?$/, '')\<close> of line 61: a final \<open>?\<close> is removed.\<close>

definition replace_trailing_question :: "string \<Rightarrow> string" where
  "replace_trailing_question s = (if s \<noteq> [] \<and> last s = CHR ''?'' then butlast s else s)"

text \<open>
  \<open>CacheStartUrl.audit\<close>, lines 40 to 75; the result is the \<open>rawValue\<close> handed to
  \<open>generateAuditResult\<close>. The guard of lines 43 to 47 tests each field for truthiness
  (an object is truthy, the empty string is not). \<open>url.resolve\<close> is Node's and is the
  parameter \<open>url_resolve\<close>, a total function on strings; called with a second argument
  that is not a string it throws a \<open>TypeError\<close>.
\<close>

definition CacheStartUrl_audit :: "(string \<Rightarrow> string \<Rightarrow> string) \<Rightarrow> cache_artifacts \<Rightarrow> bool completion" where
  "CacheStartUrl_audit url_resolve artifacts =
     (case Manifest artifacts of
        None \<Rightarrow> Returned False
      | Some node \<Rightarrow>
     (case node_value node of
        None \<Rightarrow> Returned False
      | Some manifest \<Rightarrow>
     (case start_url manifest of
        None \<Rightarrow> Returned False
      | Some start \<Rightarrow>
     (case CacheContents artifacts of
        None \<Rightarrow> Returned False
      | Some cacheContents \<Rightarrow>
     (case URL artifacts of
        None \<Rightarrow> Returned False
      | Some baseURL \<Rightarrow>
          if baseURL = [] then Returned False
          else
            (case raw start of
               None \<Rightarrow> Threw TypeError
             | Some r \<Rightarrow>
                 (let startURL = url_resolve baseURL r;
                      altStartURL = replace_trailing_question (replace_utm startURL);
                      cacheHasStartUrl =
                        find (\<lambda>req. startURL = req \<or> altStartURL = req) cacheContents
                  in Returned (cacheHasStartUrl \<noteq> None))))))))"

section \<open>The scenarios\<close>

subsection \<open>An estimator for the scenarios of the specification\<close>

text \<open>
  Modelled from the spec: \<open>TracingProcessor.getRiskToResponsiveness\<close>
  (\<open>lib/traces/tracing-processor.js\<close>) is not among the source files. Section 4.2: an
  input landing at a uniformly random instant of the window \<open>[s, e]\<close> waits until the
  end of the busy period it lands in, and not at all in an idle gap; the estimate at
  percentile \<open>p\<close> is the \<open>p\<close>-quantile of that wait. For one busy period \<open>[b, f]\<close> the
  instants of the window that wait more than \<open>d\<close> are those of
  \<open>[max b s, min (f - d) e]\<close>, so the quantile is \<open>0\<close> when the busy part of the
  window is at most the share \<open>1 - p\<close> of it (in particular for a window with no busy
  time), and \<open>f - max b s - (1 - p) * (e - s)\<close> otherwise.
\<close>

definition busy_latency :: "real \<times> real \<Rightarrow> real \<Rightarrow> real \<Rightarrow> real \<Rightarrow> real" where
  "busy_latency busy p s e =
     (let b = fst busy; f = snd busy;
          allowed = (1 - p) * (e - s)
      in if min f e - max b s \<le> allowed then 0 else f - max b s - allowed)"

text \<open>
  Modelled from the spec: the estimator's answer for a fixed set of percentiles, one
  \<open>{percentile, time}\<close> entry each, for a trace with the single busy period \<open>busy\<close>.
\<close>

definition spec_estimate :: "real list \<Rightarrow> real \<times> real \<Rightarrow> real \<Rightarrow> real \<Rightarrow> latency list" where
  "spec_estimate ps busy s e = map (\<lambda>p. \<lparr>percentile = p, time = busy_latency busy p s e\<rparr>) ps"

subsection \<open>Inputs of the time-to-interactive audit\<close>

text \<open>
  Scenario A of section 8: bounds \<open>[0, 10000]\<close>, one busy period \<open>[2000, 2100]\<close>,
  layout stable (first meaningful paint) at 1000, and a progress sequence that reaches
  85% at 1200; times are relative to \<open>navStart = 0\<close>.
\<close>

definition scenario_A :: tti_artifacts where
  "scenario_A =
     \<lparr>fmp_rawValue = 1000, fMPfull = 1000, navStart = 0, bounds_max = 10000,
      frames = [(10, 500), (60, 1000), (85, 1200), (100, 1600)],
      riskToResponsiveness = spec_estimate [1 / 2, 9 / 10, 1] (2000, 2100)\<rparr>"

text \<open>What the audit returns in scenario A.\<close>

definition scenario_A_result :: tti_result where
  "scenario_A_result =
     \<lparr>result_value = 1200, rawValue = 1200, optimalValue = ''TBD'',
      extendedInfo =
        \<lparr>timings = \<lparr>fMP = 1000, visuallyReadyT = 1200, mainThreadAvail = 1200\<rparr>,
         expectedLatencyAtTTI = Num 0,
         foundLatencies =
           [\<lparr>sample_estimate = Some \<lparr>percentile = 9 / 10, time = 0\<rparr>, sample_startTime = 1200\<rparr>]\<rparr>\<rparr>"

text \<open>
  Scenario B of section 8: as scenario A, but the main thread is busy over
  \<open>[0, 9900]\<close>.
\<close>

definition scenario_B :: tti_artifacts where
  "scenario_B = scenario_A\<lparr>riskToResponsiveness := spec_estimate [1 / 2, 9 / 10, 1] (0, 9900)\<rparr>"

text \<open>Scenario C of section 8: the progress sequence never reaches 85%.\<close>

definition scenario_C :: tti_artifacts where
  "scenario_C = scenario_A\<lparr>frames := [(10, 500), (60, 1000), (80, 1200), (84, 1600)]\<rparr>"

text \<open>
  A variant of scenario A in which the main thread is busy over \<open>[1000, 1380]\<close>: the
  windows starting at 1200 and 1250 are too busy and the one starting at 1300 is not.
\<close>

definition scenario_D :: tti_artifacts where
  "scenario_D = scenario_A\<lparr>riskToResponsiveness := spec_estimate [1 / 2, 9 / 10, 1] (1000, 1380)\<rparr>"

text \<open>What the audit returns in that scenario.\<close>

definition scenario_D_result :: tti_result where
  "scenario_D_result =
     \<lparr>result_value = 1300, rawValue = 1300, optimalValue = ''TBD'',
      extendedInfo =
        \<lparr>timings = \<lparr>fMP = 1000, visuallyReadyT = 1200, mainThreadAvail = 1300\<rparr>,
         expectedLatencyAtTTI = Num 30,
         foundLatencies =
           [\<lparr>sample_estimate = Some \<lparr>percentile = 9 / 10, time = 130\<rparr>, sample_startTime = 1200\<rparr>,
            \<lparr>sample_estimate = Some \<lparr>percentile = 9 / 10, time = 80\<rparr>, sample_startTime = 1250\<rparr>,
            \<lparr>sample_estimate = Some \<lparr>percentile = 9 / 10, time = 30\<rparr>, sample_startTime = 1300\<rparr>]\<rparr>\<rparr>"

text \<open>The variables of the loop when it ends in that scenario.\<close>

definition scenario_D_state :: loop_state where
  "scenario_D_state =
     \<lparr>startTime = 1300, currentLatency = Num 30,
      found =
        [\<lparr>sample_estimate = Some \<lparr>percentile = 9 / 10, time = 130\<rparr>, sample_startTime = 1200\<rparr>,
         \<lparr>sample_estimate = Some \<lparr>percentile = 9 / 10, time = 80\<rparr>, sample_startTime = 1250\<rparr>,
         \<lparr>sample_estimate = Some \<lparr>percentile = 9 / 10, time = 30\<rparr>, sample_startTime = 1300\<rparr>],
      queries = [(1200, 1700), (1250, 1750), (1300, 1800)],
      iterations = 3\<rparr>"

text \<open>
  A variant of scenario A in which the main thread is busy over \<open>[1000, 1300]\<close>: the
  estimate of the first window, \<open>[1200, 1700]\<close>, at the 90th percentile is exactly 50.
\<close>

definition scenario_E :: tti_artifacts where
  "scenario_E = scenario_A\<lparr>riskToResponsiveness := spec_estimate [1 / 2, 9 / 10, 1] (1000, 1300)\<rparr>"

subsection \<open>An input of the start URL audit\<close>

text \<open>
  A manifest whose \<open>start_url\<close> node has no \<open>raw\<close> value, an empty cache listing and
  a page URL.
\<close>

definition no_raw :: cache_artifacts where
  "no_raw =
     \<lparr>Manifest = Some \<lparr>node_value = Some \<lparr>start_url = Some \<lparr>raw = None\<rparr>\<rparr>\<rparr>,
      CacheContents = Some [],
      URL = Some ''https://example.com/''\<rparr>"

section \<open>Invariants of the search loop\<close>

text \<open>
  The sample that line 102 pushes for the window \<open>q = (startTime, endTime)\<close>.
\<close>

definition sample_of :: "(real \<Rightarrow> real \<Rightarrow> latency list) \<Rightarrow> real \<times> real \<Rightarrow> window_sample" where
  "sample_of est q =
     \<lparr>sample_estimate = find (\<lambda>res. percentile res = target_percentile) (est (fst q) (snd q)),
      sample_startTime = fst q\<rparr>"

text \<open>
  The windows queried so far are the first ones of the sequence that starts 50ms after
  the initial \<open>startTime\<close> \<open>s0\<close> and advances by 50ms, each 500ms wide, and the trail
  holds one sample per window, in the same order.
\<close>

definition windows_ok :: "(real \<Rightarrow> real \<Rightarrow> latency list) \<Rightarrow> real \<Rightarrow> loop_state \<Rightarrow> bool" where
  "windows_ok est s0 t \<longleftrightarrow>
     (\<forall>i < length (queries t).
        queries t ! i = (s0 + 50 * real (Suc i), s0 + 50 * real (Suc i) + 500)) \<and>
     found t = map (sample_of est) (queries t)"

text \<open>
  The trail when the loop condition is tested: either nothing has been tested yet, or
  \<open>startTime\<close> and \<open>currentLatency\<close> are those of the last sample and every sample
  before it was above the threshold.
\<close>

definition trail_ok :: "loop_state \<Rightarrow> bool" where
  "trail_ok s \<longleftrightarrow>
     (found s = [] \<and> currentLatency s = Infinity) \<or>
     (found s \<noteq> [] \<and> startTime s = sample_startTime (last (found s)) \<and>
      (\<exists>l. sample_estimate (last (found s)) = Some l \<and> currentLatency s = Num (time l)) \<and>
      (\<forall>w \<in> set (butlast (found s)). \<exists>l. sample_estimate w = Some l \<and> threshold < time l))"

section \<open>The search loop, step by step\<close>

lemma search_loop_done:
  "\<not> js_gt (currentLatency s) threshold \<Longrightarrow> search_loop est m s = (LoopDone, s)"
  by (subst search_loop.simps) simp

lemma search_loop_exhausted:
  "js_gt (currentLatency s) threshold \<Longrightarrow> m < startTime s + 50 + 500 \<Longrightarrow>
   search_loop est m s =
     (ReturnUndefined, s\<lparr>startTime := startTime s + 50, iterations := Suc (iterations s)\<rparr>)"
  by (subst search_loop.simps) (simp add: Let_def)

lemma search_loop_query:
  "js_gt (currentLatency s) threshold \<Longrightarrow> \<not> m < startTime s + 50 + 500 \<Longrightarrow>
   search_loop est m s =
     (case find (\<lambda>res. percentile res = target_percentile)
             (est (startTime s + 50) (startTime s + 50 + 500)) of
        None \<Rightarrow> (ThrowTypeError, advance est s)
      | Some l \<Rightarrow> search_loop est m ((advance est s)\<lparr>currentLatency := Num (time l)\<rparr>))"
  by (subst search_loop.simps) (simp add: Let_def advance_def split: option.splits)

lemma search_loop_rule:
  assumes init: "I s"
    and exhausted: "\<And>s. I s \<Longrightarrow> js_gt (currentLatency s) threshold \<Longrightarrow> m < startTime s + 50 + 500 \<Longrightarrow>
          Q ReturnUndefined (s\<lparr>startTime := startTime s + 50, iterations := Suc (iterations s)\<rparr>)"
    and throw: "\<And>s. I s \<Longrightarrow> js_gt (currentLatency s) threshold \<Longrightarrow> \<not> m < startTime s + 50 + 500 \<Longrightarrow>
          find (\<lambda>res. percentile res = target_percentile)
             (est (startTime s + 50) (startTime s + 50 + 500)) = None \<Longrightarrow>
          Q ThrowTypeError (advance est s)"
    and step: "\<And>s l. I s \<Longrightarrow> js_gt (currentLatency s) threshold \<Longrightarrow> \<not> m < startTime s + 50 + 500 \<Longrightarrow>
          find (\<lambda>res. percentile res = target_percentile)
             (est (startTime s + 50) (startTime s + 50 + 500)) = Some l \<Longrightarrow>
          I ((advance est s)\<lparr>currentLatency := Num (time l)\<rparr>)"
    and finished: "\<And>s. I s \<Longrightarrow> \<not> js_gt (currentLatency s) threshold \<Longrightarrow> Q LoopDone s"
  shows "Q (fst (search_loop est m s)) (snd (search_loop est m s))"
proof -
  have "e = est \<Longrightarrow> n = m \<Longrightarrow> I s \<Longrightarrow>
        Q (fst (search_loop e n s)) (snd (search_loop e n s))" for e n s
  proof (induction e n s rule: search_loop.induct)
    case (1 e n s)
    note e = \<open>e = est\<close> and n = \<open>n = m\<close> and inv = \<open>I s\<close>
    show ?case
    proof (cases "js_gt (currentLatency s) threshold")
      case False
      show ?thesis
        unfolding e n search_loop_done [OF False] fst_conv snd_conv
        by (rule finished [OF inv False])
    next
      case gt: True
      show ?thesis
      proof (cases "m < startTime s + 50 + 500")
        case True
        show ?thesis
          unfolding e n search_loop_exhausted [OF gt True] fst_conv snd_conv
          by (rule exhausted [OF inv gt True])
      next
        case fits: False
        show ?thesis
        proof (cases "find (\<lambda>res. percentile res = target_percentile)
               (est (startTime s + 50) (startTime s + 50 + 500))")
          case None
          show ?thesis
            unfolding e n search_loop_query [OF gt fits] None option.case fst_conv snd_conv
            by (rule throw [OF inv gt fits None])
        next
          case (Some l)
          have I': "I ((advance est s)\<lparr>currentLatency := Num (time l)\<rparr>)"
            by (rule step [OF inv gt fits Some])
          have fits': "\<not> n < startTime s + 50 + 500" using fits n by simp
          have Some': "find (\<lambda>res. percentile res = target_percentile)
               (e (startTime s + 50) (startTime s + 50 + 500)) = Some l" using Some e by simp
          note ih = "1.IH" [OF gt refl refl refl fits' refl refl refl refl Some' e n]
          have "Q (fst (search_loop e n ((advance est s)\<lparr>currentLatency := Num (time l)\<rparr>)))
                  (snd (search_loop e n ((advance est s)\<lparr>currentLatency := Num (time l)\<rparr>)))"
            using ih I' by (simp add: advance_def e n)
          thus ?thesis
            unfolding e n search_loop_query [OF gt fits] Some option.case .
        qed
      qed
    qed
  qed
  from this [OF refl refl init] show ?thesis .
qed

lemmas scenario_eval =
  TTI_search_def visuallyReady_def firstReady_def visualProgress_def fMPts_def
  initial_state_def search_loop_query search_loop_done search_loop_exhausted advance_def
  threshold_def target_percentile_def spec_estimate_def busy_latency_def

lemma TTI_audit_search:
  "TTI_audit a =
     (case TTI_search a of
        None \<Rightarrow> Threw TypeError
      | Some (ex, s) \<Rightarrow>
          (case ex of
             ReturnUndefined \<Rightarrow> ReturnedUndefined
           | ThrowTypeError \<Rightarrow> Threw TypeError
           | LoopDone \<Rightarrow>
               Returned (audit_result (fmp_rawValue a)
                 (frame_time (the (visuallyReady a)) - navStart a) s)))"
  by (simp add: TTI_audit_def TTI_search_def Let_def split: option.splits prod.splits loop_exit.splits)

section \<open>The windows handed to the estimator\<close>

lemma loop_queries_in_bounds:
  assumes "\<forall>q \<in> set (queries s). snd q = fst q + 500 \<and> snd q \<le> m"
  shows "\<forall>q \<in> set (queries (snd (search_loop est m s))). snd q = fst q + 500 \<and> snd q \<le> m"
  by (rule search_loop_rule [where I = "\<lambda>t. \<forall>q \<in> set (queries t). snd q = fst q + 500 \<and> snd q \<le> m"
        and Q = "\<lambda>ex t. \<forall>q \<in> set (queries t). snd q = fst q + 500 \<and> snd q \<le> m"])
     (use assms in \<open>auto simp: advance_def\<close>)

text \<open>
  Claim C4. Every window the search loop hands to the latency estimator ends 500ms after
  its start and not after \<open>bounds.max\<close>: the bounds check of line 95 comes before the
  query of line 99, so the estimator is never called on a window that extends past the
  end of the trace.
\<close>

theorem queries_within_trace:
  "\<forall>(windowStart, windowEnd) \<in> set (estimator_calls a).
     windowEnd = windowStart + 500 \<and> windowEnd \<le> bounds_max a"
proof (cases "visuallyReady a")
  case None
  thus ?thesis by (simp add: estimator_calls_def TTI_search_def)
next
  case (Some vr)
  have "\<forall>q \<in> set (queries (snd (search_loop (riskToResponsiveness a) (bounds_max a)
          (initial_state (fmp_rawValue a) (frame_time vr - navStart a))))).
          snd q = fst q + 500 \<and> snd q \<le> bounds_max a"
    by (rule loop_queries_in_bounds) (simp add: initial_state_def)
  moreover have "estimator_calls a = queries (snd (search_loop (riskToResponsiveness a) (bounds_max a)
          (initial_state (fmp_rawValue a) (frame_time vr - navStart a))))"
    using Some by (simp add: estimator_calls_def TTI_search_def split: prod.splits)
  ultimately show ?thesis by auto
qed

theorem queries_within_trace_witness:
  "estimator_calls scenario_D = [(1200, 1700), (1250, 1750), (1300, 1800)]
   \<and> (1800 :: real) \<le> bounds_max scenario_D"
proof -
  have calls: "estimator_calls scenario_D = [(1200, 1700), (1250, 1750), (1300, 1800)]"
    by (simp add: estimator_calls_def scenario_D_def scenario_A_def scenario_eval)
  have "(1300, 1800) \<in> set (estimator_calls scenario_D)"
    by (simp add: calls)
  with queries_within_trace [of scenario_D] have "(1800 :: real) \<le> bounds_max scenario_D"
    by fastforce
  with calls show ?thesis by simp
qed

section \<open>The trail of samples and the result\<close>

lemma windows_ok_advance:
  assumes "windows_ok est s0 t" "startTime t = s0 + 50 * real (length (queries t))"
  shows "windows_ok est s0 (advance est t)"
    and "startTime (advance est t) = s0 + 50 * real (length (queries (advance est t)))"
  using assms
  by (auto simp: windows_ok_def advance_def sample_of_def nth_append less_Suc_eq algebra_simps)

lemma loop_windows_ok:
  assumes "queries s = []" "found s = []" "currentLatency s = Infinity"
  shows "windows_ok est (startTime s) (snd (search_loop est m s)) \<and>
         (fst (search_loop est m s) = LoopDone \<longrightarrow>
            queries (snd (search_loop est m s)) \<noteq> [] \<and>
            startTime (snd (search_loop est m s)) = fst (last (queries (snd (search_loop est m s)))))"
proof -
  define s0 where "s0 = startTime s"
  let ?I = "\<lambda>t :: loop_state. windows_ok est s0 t \<and>
               startTime t = s0 + 50 * real (length (queries t)) \<and>
               (queries t = [] \<longrightarrow> currentLatency t = Infinity)"
  let ?Q = "\<lambda>(ex :: loop_exit) (t :: loop_state). windows_ok est s0 t \<and>
               (ex = LoopDone \<longrightarrow> queries t \<noteq> [] \<and> startTime t = fst (last (queries t)))"
  have "?Q (fst (search_loop est m s)) (snd (search_loop est m s))"
  proof (rule search_loop_rule [where I = ?I and Q = ?Q])
    show "?I s" using assms by (simp add: s0_def windows_ok_def)
  next
    fix t :: loop_state assume "?I t"
    thus "?Q ReturnUndefined (t\<lparr>startTime := startTime t + 50, iterations := Suc (iterations t)\<rparr>)"
      by (simp add: windows_ok_def)
  next
    fix t :: loop_state assume "?I t"
    thus "?Q ThrowTypeError (advance est t)"
      by (simp add: windows_ok_advance)
  next
    fix t :: loop_state and l :: latency assume t: "?I t"
    hence "windows_ok est s0 (advance est t)"
      and "startTime (advance est t) = s0 + 50 * real (length (queries (advance est t)))"
      by (simp_all add: windows_ok_advance)
    moreover have "queries (advance est t) \<noteq> []" by (simp add: advance_def)
    ultimately show "?I ((advance est t)\<lparr>currentLatency := Num (time l)\<rparr>)"
      by (simp add: windows_ok_def)
  next
    fix t :: loop_state assume t: "?I t" and le: "\<not> js_gt (currentLatency t) threshold"
    from t le have ne: "queries t \<noteq> []" by auto
    then obtain n where n: "length (queries t) = Suc n"
      by (cases "queries t") simp_all
    from ne have "last (queries t) = queries t ! (length (queries t) - 1)"
      by (rule last_conv_nth)
    also have "\<dots> = queries t ! n" by (simp add: n)
    also have "\<dots> = (s0 + 50 * real (Suc n), s0 + 50 * real (Suc n) + 500)"
      using t n by (simp add: windows_ok_def)
    finally show "?Q LoopDone t" using t ne n by simp
  qed
  thus ?thesis by (simp add: s0_def)
qed

text \<open>
  Claim C8. Every window the search tests is exactly 500ms wide, consecutive tested
  windows start exactly 50ms apart, and the trail holds one sample per tested window, in
  search order, whatever the outcome: the sample is pushed (line 102) before the
  latency is tested (lines 105 and 89), so when the loop ends on a window that passes,
  that window is the last one queried and its sample is in the trail.
\<close>

theorem tested_windows_and_samples:
  assumes "TTI_search a = Some (ex, s)"
  shows "(\<forall>q \<in> set (queries s). snd q = fst q + 500) \<and>
         (\<forall>i. Suc i < length (queries s) \<longrightarrow> fst (queries s ! Suc i) = fst (queries s ! i) + 50) \<and>
         found s =
           map (\<lambda>q. \<lparr>sample_estimate =
                        find (\<lambda>res. percentile res = target_percentile)
                          (riskToResponsiveness a (fst q) (snd q)),
                      sample_startTime = fst q\<rparr>) (queries s) \<and>
         (ex = LoopDone \<longrightarrow> queries s \<noteq> [] \<and> startTime s = fst (last (queries s)))"
proof -
  from assms obtain vr where vr: "visuallyReady a = Some vr"
    by (auto simp: TTI_search_def split: option.splits)
  define s0 where "s0 = initial_state (fmp_rawValue a) (frame_time vr - navStart a)"
  from assms vr have run: "search_loop (riskToResponsiveness a) (bounds_max a) s0 = (ex, s)"
    by (simp add: TTI_search_def s0_def)
  have "queries s0 = []" "found s0 = []" "currentLatency s0 = Infinity"
    by (simp_all add: s0_def initial_state_def)
  from loop_windows_ok [OF this, of "riskToResponsiveness a" "bounds_max a"] run
  have ok: "windows_ok (riskToResponsiveness a) (startTime s0) s"
    and fin: "ex = LoopDone \<longrightarrow> queries s \<noteq> [] \<and> startTime s = fst (last (queries s))"
    by simp_all
  have nth: "queries s ! i = (startTime s0 + 50 * real (Suc i), startTime s0 + 50 * real (Suc i) + 500)"
    if "i < length (queries s)" for i
    using ok that by (simp add: windows_ok_def)
  have width: "\<forall>q \<in> set (queries s). snd q = fst q + 500"
    using nth by (auto simp: in_set_conv_nth)
  have step: "\<forall>i. Suc i < length (queries s) \<longrightarrow> fst (queries s ! Suc i) = fst (queries s ! i) + 50"
    using nth by (simp add: algebra_simps)
  have "found s = map (sample_of (riskToResponsiveness a)) (queries s)"
    using ok by (simp add: windows_ok_def)
  hence samples: "found s =
           map (\<lambda>q. \<lparr>sample_estimate =
                        find (\<lambda>res. percentile res = target_percentile)
                          (riskToResponsiveness a (fst q) (snd q)),
                      sample_startTime = fst q\<rparr>) (queries s)"
    by (simp add: sample_of_def [abs_def])
  from width step samples fin show ?thesis by blast
qed

theorem tested_windows_and_samples_witness:
  "TTI_search scenario_D = Some (LoopDone, scenario_D_state) \<and>
   queries scenario_D_state = [(1200, 1700), (1250, 1750), (1300, 1800)] \<and>
   found scenario_D_state =
     map (\<lambda>q. \<lparr>sample_estimate =
                  find (\<lambda>res. percentile res = target_percentile)
                    (riskToResponsiveness scenario_D (fst q) (snd q)),
                sample_startTime = fst q\<rparr>) (queries scenario_D_state) \<and>
   startTime scenario_D_state = fst (last (queries scenario_D_state))"
proof -
  have run: "TTI_search scenario_D = Some (LoopDone, scenario_D_state)"
    by (simp add: scenario_D_state_def scenario_D_def scenario_A_def scenario_eval)
  from tested_windows_and_samples [OF run] show ?thesis
    by (simp add: run scenario_D_state_def)
qed

lemma trail_ok_step:
  assumes "trail_ok s" "js_gt (currentLatency s) threshold"
    "find (\<lambda>res. percentile res = target_percentile)
       (est (startTime s + 50) (startTime s + 50 + 500)) = Some l"
  shows "trail_ok ((advance est s)\<lparr>currentLatency := Num (time l)\<rparr>)"
proof -
  have prev: "\<forall>w \<in> set (found s). \<exists>l. sample_estimate w = Some l \<and> threshold < time l"
  proof (cases "found s = []")
    case True thus ?thesis by simp
  next
    case False
    with assms(1) obtain l' where l': "sample_estimate (last (found s)) = Some l'"
      "currentLatency s = Num (time l')"
      and rest: "\<forall>w \<in> set (butlast (found s)). \<exists>l. sample_estimate w = Some l \<and> threshold < time l"
      by (auto simp: trail_ok_def)
    from l' assms(2) have "threshold < time l'" by simp
    with l' have "\<exists>l. sample_estimate (last (found s)) = Some l \<and> threshold < time l" by blast
    moreover have "set (found s) = insert (last (found s)) (set (butlast (found s)))"
      using False by (metis append_butlast_last_id list.set(2) rotate1.simps(2) set_rotate1)
    ultimately show ?thesis using rest by auto
  qed
  show ?thesis
    using prev assms(3) by (simp add: trail_ok_def advance_def)
qed

lemma loop_trail_ok:
  assumes "trail_ok s"
  shows "fst (search_loop est m s) = LoopDone \<longrightarrow>
           trail_ok (snd (search_loop est m s)) \<and>
           \<not> js_gt (currentLatency (snd (search_loop est m s))) threshold"
  by (rule search_loop_rule [where I = trail_ok
        and Q = "\<lambda>ex t. ex = LoopDone \<longrightarrow> trail_ok t \<and> \<not> js_gt (currentLatency t) threshold"])
     (use assms in \<open>auto simp: trail_ok_step\<close>)

text \<open>
  Claim C9. When the audit returns a result, the trail in it is the record of the
  windows tested: the first starts at \<open>(max(fMP, visuallyReady) - 50) + 50\<close>, each next
  one 50ms later, each fits in the trace, and each sample holds the estimator's answer at
  the 90th percentile for its window. The reported time (\<open>rawValue\<close>) is the start of
  the last window of the trail; that window's recorded latency passes the loop's test (it
  is not above 50) and is the reported \<open>expectedLatencyAtTTI\<close>; and every earlier window
  of the trail has a recorded latency above 50, so the result is the first tested window
  that passes.
\<close>

theorem interactive_time_is_first_qualifying_window:
  assumes "TTI_audit a = Returned r"
  shows "\<exists>vr. visuallyReady a = Some vr \<and>
     (let trail = foundLatencies (extendedInfo r) in
        trail \<noteq> [] \<and>
        sample_startTime (trail ! 0) = max (fmp_rawValue a) (frame_time vr - navStart a) - 50 + 50 \<and>
        (\<forall>i. Suc i < length trail \<longrightarrow>
           sample_startTime (trail ! Suc i) = sample_startTime (trail ! i) + 50) \<and>
        (\<forall>i < length trail.
           sample_startTime (trail ! i) + 500 \<le> bounds_max a \<and>
           sample_estimate (trail ! i) =
             find (\<lambda>res. percentile res = 9 / 10)
               (riskToResponsiveness a (sample_startTime (trail ! i))
                  (sample_startTime (trail ! i) + 500))) \<and>
        rawValue r = sample_startTime (last trail) \<and>
        (\<exists>l. sample_estimate (last trail) = Some l \<and> \<not> 50 < time l \<and>
             expectedLatencyAtTTI (extendedInfo r) = Num (time l)) \<and>
        (\<forall>w \<in> set (butlast trail). \<exists>l. sample_estimate w = Some l \<and> 50 < time l))"
proof -
  from assms obtain vr where vr: "visuallyReady a = Some vr"
    by (auto simp: TTI_audit_def Let_def split: option.splits)
  define est where "est = riskToResponsiveness a"
  define m where "m = bounds_max a"
  define s0 where "s0 = initial_state (fmp_rawValue a) (frame_time vr - navStart a)"
  define t where "t = snd (search_loop est m s0)"
  have ex: "fst (search_loop est m s0) = LoopDone"
    and r: "r = audit_result (fmp_rawValue a) (frame_time vr - navStart a) t"
    using assms vr
    by (auto simp: TTI_audit_def Let_def s0_def t_def est_def m_def split: prod.splits loop_exit.splits)
  have init: "queries s0 = []" "found s0 = []" "currentLatency s0 = Infinity"
    "startTime s0 = max (fmp_rawValue a) (frame_time vr - navStart a) - 50"
    by (simp_all add: s0_def initial_state_def)
  have "trail_ok s0" by (simp add: trail_ok_def init)
  from loop_trail_ok [OF this, of est m] ex
  have ok: "trail_ok t" and le: "\<not> js_gt (currentLatency t) threshold"
    by (simp_all add: t_def)
  from le have ne: "found t \<noteq> []"
    using ok by (auto simp: trail_ok_def)
  with ok obtain l where l: "sample_estimate (last (found t)) = Some l"
      "currentLatency t = Num (time l)"
    and st: "startTime t = sample_startTime (last (found t))"
    and rest: "\<forall>w \<in> set (butlast (found t)). \<exists>l. sample_estimate w = Some l \<and> threshold < time l"
    by (auto simp: trail_ok_def)
  from le l have pass: "\<not> 50 < time l" by (simp add: threshold_def)
  from loop_windows_ok [OF init(1-3), of est m]
  have w: "windows_ok est (startTime s0) t" by (simp add: t_def)
  hence fq: "found t = map (sample_of est) (queries t)"
    and qn: "\<And>i. i < length (queries t) \<Longrightarrow>
       queries t ! i = (startTime s0 + 50 * real (Suc i), startTime s0 + 50 * real (Suc i) + 500)"
    by (simp_all add: windows_ok_def)
  have len: "length (found t) = length (queries t)" by (simp add: fq)
  have fn: "found t ! i = sample_of est (queries t ! i)" if "i < length (found t)" for i
    using that by (simp add: fq)
  have inb: "\<forall>q \<in> set (queries t). snd q = fst q + 500 \<and> snd q \<le> m"
    unfolding t_def by (rule loop_queries_in_bounds) (simp add: init)
  have start: "sample_startTime (found t ! i) = startTime s0 + 50 * real (Suc i)"
    if "i < length (found t)" for i
    using that fn [OF that] qn [of i] by (simp add: len sample_of_def)
  have first: "sample_startTime (found t ! 0) =
      max (fmp_rawValue a) (frame_time vr - navStart a) - 50 + 50"
    using start [of 0] ne by (simp add: init)
  have step: "\<forall>i. Suc i < length (found t) \<longrightarrow>
      sample_startTime (found t ! Suc i) = sample_startTime (found t ! i) + 50"
    using start by (simp add: algebra_simps)
  have each: "\<forall>i < length (found t).
      sample_startTime (found t ! i) + 500 \<le> bounds_max a \<and>
      sample_estimate (found t ! i) =
        find (\<lambda>res. percentile res = 9 / 10)
          (riskToResponsiveness a (sample_startTime (found t ! i))
             (sample_startTime (found t ! i) + 500))"
  proof (intro allI impI)
    fix i assume i: "i < length (found t)"
    hence "queries t ! i \<in> set (queries t)" by (simp add: len)
    with inb have "snd (queries t ! i) = fst (queries t ! i) + 500" "snd (queries t ! i) \<le> m"
      by auto
    thus "sample_startTime (found t ! i) + 500 \<le> bounds_max a \<and>
      sample_estimate (found t ! i) =
        find (\<lambda>res. percentile res = 9 / 10)
          (riskToResponsiveness a (sample_startTime (found t ! i))
             (sample_startTime (found t ! i) + 500))"
      using fn [OF i] by (simp add: sample_of_def m_def est_def target_percentile_def)
  qed
  from rest have rest': "\<forall>w \<in> set (butlast (found t)). \<exists>l. sample_estimate w = Some l \<and> 50 < time l"
    by (simp add: threshold_def)
  have "foundLatencies (extendedInfo r) = found t" "rawValue r = startTime t"
    "expectedLatencyAtTTI (extendedInfo r) = currentLatency t"
    by (simp_all add: r audit_result_def)
  with vr ne first step each st l pass rest' show ?thesis
    unfolding Let_def by auto
qed

theorem interactive_time_is_first_qualifying_window_witness:
  "TTI_audit scenario_D = Returned scenario_D_result \<and>
   rawValue scenario_D_result = sample_startTime (last (foundLatencies (extendedInfo scenario_D_result))) \<and>
   sample_startTime (foundLatencies (extendedInfo scenario_D_result) ! 0) = 1200 \<and>
   sample_estimate (foundLatencies (extendedInfo scenario_D_result) ! 2) =
     find (\<lambda>res. percentile res = 9 / 10) (riskToResponsiveness scenario_D 1300 1800) \<and>
   sample_startTime (foundLatencies (extendedInfo scenario_D_result) ! 1) =
     sample_startTime (foundLatencies (extendedInfo scenario_D_result) ! 0) + 50 \<and>
   sample_startTime (foundLatencies (extendedInfo scenario_D_result) ! 2) + 500
     \<le> bounds_max scenario_D \<and>
   sample_estimate (foundLatencies (extendedInfo scenario_D_result) ! 0) =
     Some \<lparr>percentile = 9 / 10, time = 130\<rparr> \<and>
   sample_estimate (last (foundLatencies (extendedInfo scenario_D_result))) =
     Some \<lparr>percentile = 9 / 10, time = 30\<rparr> \<and>
   expectedLatencyAtTTI (extendedInfo scenario_D_result) = Num 30"
proof -
  have run: "TTI_audit scenario_D = Returned scenario_D_result"
    by (simp add: TTI_audit_search audit_result_def scenario_D_result_def scenario_D_def
        scenario_A_def scenario_eval)
  have vr: "visuallyReady scenario_D = Some \<lparr>progress = 85, frame_time = 1200\<rparr>"
    by (simp add: scenario_D_def scenario_A_def scenario_eval)
  from interactive_time_is_first_qualifying_window [OF run] vr
  have "rawValue scenario_D_result = sample_startTime (last (foundLatencies (extendedInfo scenario_D_result)))"
    and "sample_startTime (foundLatencies (extendedInfo scenario_D_result) ! 0) =
           max (fmp_rawValue scenario_D) (1200 - navStart scenario_D) - 50 + 50"
    and "\<forall>i < length (foundLatencies (extendedInfo scenario_D_result)).
           sample_estimate (foundLatencies (extendedInfo scenario_D_result) ! i) =
             find (\<lambda>res. percentile res = 9 / 10)
               (riskToResponsiveness scenario_D
                  (sample_startTime (foundLatencies (extendedInfo scenario_D_result) ! i))
                  (sample_startTime (foundLatencies (extendedInfo scenario_D_result) ! i) + 500))"
    by (simp_all add: Let_def)
  moreover have "(2 :: nat) < length (foundLatencies (extendedInfo scenario_D_result))"
    "sample_startTime (foundLatencies (extendedInfo scenario_D_result) ! 2) = 1300"
    by (simp_all add: scenario_D_result_def)
  moreover have "sample_startTime (foundLatencies (extendedInfo scenario_D_result) ! 1) =
     sample_startTime (foundLatencies (extendedInfo scenario_D_result) ! 0) + 50"
    "sample_startTime (foundLatencies (extendedInfo scenario_D_result) ! 2) + 500
       \<le> bounds_max scenario_D"
    "sample_estimate (foundLatencies (extendedInfo scenario_D_result) ! 0) =
       Some \<lparr>percentile = 9 / 10, time = 130\<rparr>"
    "sample_estimate (last (foundLatencies (extendedInfo scenario_D_result))) =
       Some \<lparr>percentile = 9 / 10, time = 30\<rparr>"
    "expectedLatencyAtTTI (extendedInfo scenario_D_result) = Num 30"
    by (simp_all add: scenario_D_result_def scenario_D_def scenario_A_def)
  ultimately show ?thesis
    using run by (auto simp: scenario_D_def scenario_A_def)
qed

section \<open>Termination and the number of iterations\<close>

text \<open>With \<open>rnd\<close> the identity the loop in double arithmetic is the exact one.\<close>

lemma search_loop_fl_exact:
  "search_loop_fl (\<lambda>x. x) est m fuel s = (Some ex, t) \<Longrightarrow> search_loop est m s = (ex, t)"
proof (induction fuel arbitrary: s)
  case 0
  thus ?case by (auto simp: search_loop_done split: if_splits)
next
  case (Suc fuel)
  show ?case
  proof (cases "js_gt (currentLatency s) threshold")
    case False
    with Suc.prems show ?thesis by (simp add: search_loop_done)
  next
    case gt: True
    show ?thesis
    proof (cases "m < startTime s + 50 + 500")
      case True
      with gt Suc.prems show ?thesis by (simp add: search_loop_exhausted Let_def)
    next
      case fits: False
      show ?thesis
      proof (cases "find (\<lambda>res. percentile res = target_percentile)
               (est (startTime s + 50) (startTime s + 50 + 500))")
        case None
        with gt fits Suc.prems show ?thesis
          unfolding search_loop_query [OF gt fits] by (simp add: Let_def advance_def)
      next
        case (Some l)
        with gt fits Suc.prems
        have "search_loop_fl (\<lambda>x. x) est m fuel ((advance est s)\<lparr>currentLatency := Num (time l)\<rparr>) = (Some ex, t)"
          by (simp add: Let_def advance_def)
        from Suc.IH [OF this] show ?thesis
          unfolding search_loop_query [OF gt fits] Some option.case .
      qed
    qed
  qed
qed






text \<open>
  Without exact additions the loop need not end: when adding 50 to \<open>startTime\<close> gives
  \<open>startTime\<close> again (as for doubles of magnitude \<open>10^19\<close>), the window fits and its
  latency is above the threshold, the loop is still running after any number of
  iterations.
\<close>

lemma absorbed_addition_never_exits:
  assumes "rnd (startTime s + 50) = startTime s"
    and "\<not> m < rnd (startTime s + 500)"
    and "\<exists>l. find (\<lambda>res. percentile res = target_percentile)
           (est (startTime s) (rnd (startTime s + 500))) = Some l \<and> threshold < time l"
    and "js_gt (currentLatency s) threshold"
  shows "fst (search_loop_fl rnd est m fuel s) = None"
  using assms
proof (induction fuel arbitrary: s)
  case 0
  thus ?case by simp
next
  case (Suc fuel)
  from Suc.prems(3) obtain l where l: "find (\<lambda>res. percentile res = target_percentile)
           (est (startTime s) (rnd (startTime s + 500))) = Some l" "threshold < time l"
    by blast
  define s' where "s' = s\<lparr>iterations := Suc (iterations s),
       queries := queries s @ [(startTime s, rnd (startTime s + 500))],
       found := found s @ [\<lparr>sample_estimate = Some l, sample_startTime = startTime s\<rparr>],
       currentLatency := Num (time l)\<rparr>"
  have run: "search_loop_fl rnd est m (Suc fuel) s = search_loop_fl rnd est m fuel s'"
    using Suc.prems(1,2,4) l by (simp add: Let_def s'_def)
  have "fst (search_loop_fl rnd est m fuel s') = None"
    by (rule Suc.IH) (use Suc.prems l in \<open>simp_all add: s'_def\<close>)
  thus ?case by (simp only: run)
qed


section \<open>Where the search starts\<close>

lemma scenario_A_calls: "estimator_calls scenario_A = [(1200, 1700)]"
  by (simp add: estimator_calls_def scenario_A_def scenario_eval)

lemma scenario_A_audit: "TTI_audit scenario_A = Returned scenario_A_result"
  by (simp add: TTI_audit_search audit_result_def scenario_A_result_def scenario_A_def scenario_eval)

lemma loop_queries_extend:
  "\<exists>ys. queries (snd (search_loop est m s)) = queries s @ ys"
  by (rule search_loop_rule [where I = "\<lambda>t. \<exists>ys. queries t = queries s @ ys"
        and Q = "\<lambda>ex t. \<exists>ys. queries t = queries s @ ys"])
     (auto simp: advance_def)

lemma first_query:
  assumes "visuallyReady a = Some vr"
    and "max (fmp_rawValue a) (frame_time vr - navStart a) + 500 \<le> bounds_max a"
  shows "estimator_calls a \<noteq> [] \<and>
         hd (estimator_calls a) =
           (max (fmp_rawValue a) (frame_time vr - navStart a),
            max (fmp_rawValue a) (frame_time vr - navStart a) + 500)"
proof -
  define est where "est = riskToResponsiveness a"
  define m where "m = bounds_max a"
  define r where "r = max (fmp_rawValue a) (frame_time vr - navStart a)"
  define s0 where "s0 = initial_state (fmp_rawValue a) (frame_time vr - navStart a)"
  have calls: "estimator_calls a = queries (snd (search_loop est m s0))"
    using assms(1) by (simp add: estimator_calls_def TTI_search_def est_def m_def s0_def split: prod.splits)
  have gt: "js_gt (currentLatency s0) threshold" by (simp add: s0_def initial_state_def)
  have fits: "\<not> m < startTime s0 + 50 + 500"
    using assms(2) by (simp add: s0_def initial_state_def m_def)
  have q: "queries (advance est s0) = [(r, r + 500)]"
    by (simp add: advance_def s0_def initial_state_def r_def)
  have "\<exists>ys. queries (snd (search_loop est m s0)) = (r, r + 500) # ys"
  proof (cases "find (\<lambda>res. percentile res = target_percentile)
             (est (startTime s0 + 50) (startTime s0 + 50 + 500))")
    case None
    show ?thesis
      unfolding search_loop_query [OF gt fits] None option.case by (simp add: q)
  next
    case (Some l)
    from loop_queries_extend [of est m "(advance est s0)\<lparr>currentLatency := Num (time l)\<rparr>"]
    show ?thesis
      unfolding search_loop_query [OF gt fits] Some option.case by (simp add: q)
  qed
  thus ?thesis by (auto simp: calls r_def)
qed

lemma search_loop_fl_queries_extend:
  "\<exists>ys. queries (snd (search_loop_fl rnd est m fuel s)) = queries s @ ys"
proof (induction fuel arbitrary: s)
  case 0
  show ?case by simp
next
  case (Suc fuel)
  show ?case
  proof (cases "find (\<lambda>res. percentile res = target_percentile)
               (est (rnd (startTime s + 50)) (rnd (rnd (startTime s + 50) + 500)))")
    case None
    thus ?thesis by (simp add: Let_def)
  next
    case (Some l)
    define s' where "s' = s\<lparr>startTime := rnd (startTime s + 50), iterations := Suc (iterations s),
       queries := queries s @ [(rnd (startTime s + 50), rnd (rnd (startTime s + 50) + 500))],
       found := found s @ [\<lparr>sample_estimate = Some l, sample_startTime = rnd (startTime s + 50)\<rparr>],
       currentLatency := Num (time l)\<rparr>"
    from Suc.IH [of s'] obtain ys where "queries (snd (search_loop_fl rnd est m fuel s')) = queries s' @ ys"
      by blast
    thus ?thesis using Some by (simp add: Let_def s'_def)
  qed
qed

lemma first_query_fl:
  assumes "\<not> m < rnd (rnd (rnd (max f v - 50) + 50) + 500)"
  shows "take 1 (queries (snd (search_loop_fl rnd est m (Suc fuel) (initial_state_fl rnd f v)))) =
           [(rnd (rnd (max f v - 50) + 50), rnd (rnd (rnd (max f v - 50) + 50) + 500))]"
proof (cases "find (\<lambda>res. percentile res = target_percentile)
               (est (rnd (rnd (max f v - 50) + 50)) (rnd (rnd (rnd (max f v - 50) + 50) + 500)))")
  case None
  with assms show ?thesis by (simp add: Let_def initial_state_fl_def)
next
  case (Some l)
  define s' where "s' = (initial_state_fl rnd f v)\<lparr>startTime := rnd (rnd (max f v - 50) + 50), iterations := 1,
       queries := [(rnd (rnd (max f v - 50) + 50), rnd (rnd (rnd (max f v - 50) + 50) + 500))],
       found := [\<lparr>sample_estimate = Some l, sample_startTime = rnd (rnd (max f v - 50) + 50)\<rparr>],
       currentLatency := Num (time l)\<rparr>"
  have run: "search_loop_fl rnd est m (Suc fuel) (initial_state_fl rnd f v) = search_loop_fl rnd est m fuel s'"
    using assms Some by (simp add: Let_def initial_state_fl_def s'_def)
  from search_loop_fl_queries_extend [of rnd est m fuel s']
  obtain ys where "queries (snd (search_loop_fl rnd est m fuel s')) = queries s' @ ys" by blast
  moreover have "queries s' = [(rnd (rnd (max f v - 50) + 50), rnd (rnd (rnd (max f v - 50) + 50) + 500))]"
    by (simp add: s'_def)
  ultimately show ?thesis unfolding run by simp
qed

lemma scenario_A_fl:
  assumes "rnd 1150 = 1150" "rnd 1200 = 1200" "rnd 1700 = 1700"
  shows "search_loop_fl rnd (spec_estimate [1 / 2, 9 / 10, 1] (2000, 2100)) 10000 (Suc fuel)
           (initial_state_fl rnd 1000 1200) =
         (Some LoopDone,
          \<lparr>startTime = 1200, currentLatency = Num 0,
           found = [\<lparr>sample_estimate = Some \<lparr>percentile = 9 / 10, time = 0\<rparr>,
                     sample_startTime = 1200\<rparr>],
           queries = [(1200, 1700)], iterations = 1\<rparr>)"
  using assms
  by (cases fuel)
     (simp_all add: initial_state_fl_def threshold_def target_percentile_def spec_estimate_def
        busy_latency_def Let_def)

text \<open>
  Claim C1, as amended. The first window the search queries starts at
  \<open>(max(layoutStableTime, visualReadyTime) - 50) + 50\<close> as the code computes it: line 81
  subtracts 50 and the loop body adds 50 (line 91) before the first query. That is
  \<open>max(layoutStableTime, visualReadyTime)\<close> itself whenever the subtraction and the
  addition are exact. In scenario A (layout stable at 1000, visually ready at 1200,
  bounds \<open>[0, 10000]\<close>, one busy period \<open>[2000, 2100]\<close>), where they are, the only window
  tested is \<open>[1200, 1700]\<close> and the audit returns 1200.
\<close>

theorem first_window_starts_at_reference:
  "(\<not> m < rnd (rnd (rnd (max f v - 50) + 50) + 500) \<longrightarrow>
      take 1 (queries (snd (search_loop_fl rnd est m (Suc fuel) (initial_state_fl rnd f v)))) =
        [(rnd (rnd (max f v - 50) + 50), rnd (rnd (rnd (max f v - 50) + 50) + 500))]) \<and>
   (rnd (max f v - 50) = max f v - 50 \<and> rnd (max f v) = max f v \<longrightarrow>
      rnd (rnd (max f v - 50) + 50) = max f v) \<and>
   (rnd 1150 = 1150 \<and> rnd 1200 = 1200 \<and> rnd 1700 = 1700 \<longrightarrow>
      search_loop_fl rnd (spec_estimate [1 / 2, 9 / 10, 1] (2000, 2100)) 10000 (Suc fuel)
           (initial_state_fl rnd 1000 1200) =
         (Some LoopDone,
          \<lparr>startTime = 1200, currentLatency = Num 0,
           found = [\<lparr>sample_estimate = Some \<lparr>percentile = 9 / 10, time = 0\<rparr>,
                     sample_startTime = 1200\<rparr>],
           queries = [(1200, 1700)], iterations = 1\<rparr>)) \<and>
   estimator_calls scenario_A = [(1200, 1700)] \<and>
   TTI_audit scenario_A = Returned scenario_A_result"
  using first_query_fl [of m rnd f v est fuel] scenario_A_fl [of rnd fuel]
    scenario_A_calls scenario_A_audit
  by simp

theorem first_window_starts_at_reference_witness:
  "\<not> (10000 :: real) < (max 1000 1200 - 50 + 50) + 500 \<and>
   take 1 (queries (snd (search_loop_fl (\<lambda>x. x) (spec_estimate [1 / 2, 9 / 10, 1] (2000, 2100))
       10000 (Suc 0) (initial_state_fl (\<lambda>x. x) 1000 1200)))) = [(1200, 1700)] \<and>
   max (1000 :: real) 1200 - 50 + 50 = max 1000 1200 \<and>
   search_loop_fl (\<lambda>x. x) (spec_estimate [1 / 2, 9 / 10, 1] (2000, 2100)) 10000 (Suc 0)
       (initial_state_fl (\<lambda>x. x) 1000 1200) =
     (Some LoopDone,
      \<lparr>startTime = 1200, currentLatency = Num 0,
       found = [\<lparr>sample_estimate = Some \<lparr>percentile = 9 / 10, time = 0\<rparr>,
                 sample_startTime = 1200\<rparr>],
       queries = [(1200, 1700)], iterations = 1\<rparr>)"
proof -
  from first_window_starts_at_reference [of 10000 "\<lambda>x. x" 1000 1200 "spec_estimate [1 / 2, 9 / 10, 1] (2000, 2100)" 0]
  show ?thesis by simp
qed

text \<open>
  Claim C1 as it is stated fails in scenario A: the first window tested starts at 1200,
  not at \<open>max 1000 1200 - 50 = 1150\<close>, and the audit returns 1200, not 1150.
\<close>

theorem first_window_counterexample:
  "fst (hd (estimator_calls scenario_A)) = 1200 \<and>
   fst (hd (estimator_calls scenario_A)) \<noteq> max 1000 1200 - 50 \<and>
   TTI_audit scenario_A = Returned scenario_A_result \<and>
   rawValue scenario_A_result \<noteq> 1150"
  by (simp add: scenario_A_calls scenario_A_audit scenario_A_result_def)

section \<open>The visual-readiness lookup\<close>

lemma firstReady_first_in_order:
  assumes "firstReady samples notBefore minProgress = Some f"
  shows "\<exists>i < length samples. samples ! i = f \<and>
           notBefore \<le> frame_time f \<and> minProgress \<le> progress f \<and>
           (\<forall>j < i. \<not> (notBefore \<le> frame_time (samples ! j) \<and> minProgress \<le> progress (samples ! j)))"
  using assms unfolding firstReady_def find_Some_iff by blast

text \<open>
  Claim C7, as amended. The lookup leaves the samples as they are, so a second call with
  the same samples, reference time and progress threshold returns what the first
  returned; and calling it again with the returned sample's time as reference time
  returns the same sample. The sample it returns qualifies and is the first one in array
  order that does; when the samples are in time order no sample with an earlier
  timestamp qualifies.
\<close>

theorem firstReady_idempotent_minimal:
  assumes "firstReady samples notBefore minProgress = Some f"
  shows "snd (firstReady_call samples notBefore minProgress) = samples \<and>
         fst (firstReady_call (snd (firstReady_call samples notBefore minProgress)) notBefore minProgress)
           = fst (firstReady_call samples notBefore minProgress) \<and>
         firstReady samples (frame_time f) minProgress = Some f \<and>
         (\<exists>i < length samples. samples ! i = f \<and>
            notBefore \<le> frame_time f \<and> minProgress \<le> progress f \<and>
            (\<forall>j < i. \<not> (notBefore \<le> frame_time (samples ! j) \<and> minProgress \<le> progress (samples ! j)))) \<and>
         (sorted_wrt (\<lambda>x y. frame_time x \<le> frame_time y) samples \<longrightarrow>
            (\<forall>g \<in> set samples. frame_time g < frame_time f \<longrightarrow>
               \<not> (notBefore \<le> frame_time g \<and> minProgress \<le> progress g)))"
proof -
  from firstReady_first_in_order [OF assms] obtain i where i: "i < length samples"
    "samples ! i = f" "notBefore \<le> frame_time f" "minProgress \<le> progress f"
    and first: "\<forall>j < i. \<not> (notBefore \<le> frame_time (samples ! j) \<and> minProgress \<le> progress (samples ! j))"
    by blast
  have "\<not> (notBefore \<le> frame_time g \<and> minProgress \<le> progress g)"
    if sorted: "sorted_wrt (\<lambda>x y. frame_time x \<le> frame_time y) samples"
      and g: "g \<in> set samples" "frame_time g < frame_time f" for g
  proof -
    from g(1) obtain j where j: "j < length samples" "samples ! j = g"
      by (auto simp: in_set_conv_nth)
    have "j < i"
    proof (rule ccontr)
      assume "\<not> j < i"
      hence "j = i \<or> i < j" by arith
      thus False
      proof
        assume "j = i" with i j g(2) show False by simp
      next
        assume "i < j"
        with sorted j(1) have "frame_time (samples ! i) \<le> frame_time (samples ! j)"
          by (simp add: sorted_wrt_iff_nth_less)
        with i j g(2) show False by simp
      qed
    qed
    with first j show ?thesis by auto
  qed
  moreover have "firstReady samples (frame_time f) minProgress = Some f"
    unfolding firstReady_def find_Some_iff
  proof (intro exI [of _ i] conjI allI impI)
    fix j assume "j < i"
    with first i(3) show "\<not> (frame_time f \<le> frame_time (samples ! j) \<and> minProgress \<le> progress (samples ! j))"
      by fastforce
  qed (use i in simp_all)
  ultimately show ?thesis using i first by (auto simp: firstReady_call_def)
qed

theorem firstReady_idempotent_minimal_witness:
  "firstReady (visualProgress scenario_A) 1000 85 = Some \<lparr>progress = 85, frame_time = 1200\<rparr> \<and>
   sorted_wrt (\<lambda>x y. frame_time x \<le> frame_time y) (visualProgress scenario_A) \<and>
   fst (firstReady_call (snd (firstReady_call (visualProgress scenario_A) 1000 85)) 1000 85) =
     Some \<lparr>progress = 85, frame_time = 1200\<rparr> \<and>
   \<not> (1000 \<le> frame_time \<lparr>progress = 60, frame_time = 1000\<rparr> \<and>
      85 \<le> progress \<lparr>progress = 60, frame_time = 1000\<rparr>)"
proof -
  have s: "sorted_wrt (\<lambda>x y. frame_time x \<le> frame_time y) (visualProgress scenario_A)"
    by (simp add: visualProgress_def scenario_A_def)
  have f: "firstReady (visualProgress scenario_A) 1000 85 = Some \<lparr>progress = 85, frame_time = 1200\<rparr>"
    by (simp add: visualProgress_def scenario_A_def firstReady_def)
  have g: "\<lparr>progress = 60, frame_time = 1000\<rparr> \<in> set (visualProgress scenario_A)"
    by (simp add: visualProgress_def scenario_A_def)
  from firstReady_idempotent_minimal [OF f] s g
  have "\<not> (1000 \<le> frame_time \<lparr>progress = 60, frame_time = 1000\<rparr> \<and>
      85 \<le> progress \<lparr>progress = 60, frame_time = 1000\<rparr>)"
    and "fst (firstReady_call (snd (firstReady_call (visualProgress scenario_A) 1000 85)) 1000 85) =
       fst (firstReady_call (visualProgress scenario_A) 1000 85)"
    by fastforce+
  with s f show ?thesis by (simp add: firstReady_call_def)
qed

text \<open>
  Claim C7 as it is stated fails for samples that are not in time order: the lookup
  returns the first qualifying sample of the array, at 2000, although the sample at 1500
  qualifies too.
\<close>

theorem firstReady_minimal_counterexample:
  "firstReady [\<lparr>progress = 90, frame_time = 2000\<rparr>, \<lparr>progress = 90, frame_time = 1500\<rparr>] 1000 85
     = Some \<lparr>progress = 90, frame_time = 2000\<rparr> \<and>
   frame_time \<lparr>progress = 90, frame_time = 1500\<rparr> < frame_time \<lparr>progress = 90, frame_time = 2000\<rparr> \<and>
   1000 \<le> frame_time \<lparr>progress = 90, frame_time = 1500\<rparr> \<and>
   85 \<le> progress \<lparr>progress = 90, frame_time = 1500\<rparr>"
  by (simp add: firstReady_def)

section \<open>Runs of the audits on concrete inputs\<close>

lemma scenario_B_estimate:
  assumes "0 \<le> ws" "ws + 50 + 500 \<le> 10000"
  shows "find (\<lambda>res. percentile res = target_percentile)
           (spec_estimate [1 / 2, 9 / 10, 1] (0, 9900) (ws + 50) (ws + 50 + 500))
         = Some \<lparr>percentile = 9 / 10, time = 9800 - ws\<rparr>"
  using assms by (simp add: spec_estimate_def target_percentile_def busy_latency_def)

lemma scenario_B_loop:
  assumes "0 \<le> startTime s" "js_gt (currentLatency s) threshold"
  shows "fst (search_loop (spec_estimate [1 / 2, 9 / 10, 1] (0, 9900)) 10000 s) = ReturnUndefined"
proof (rule search_loop_rule [where I = "\<lambda>t. 0 \<le> startTime t \<and> js_gt (currentLatency t) threshold"
      and Q = "\<lambda>ex t. ex = ReturnUndefined"])
  show "0 \<le> startTime s \<and> js_gt (currentLatency s) threshold" using assms by simp
next
  fix t :: loop_state
  assume "0 \<le> startTime t \<and> js_gt (currentLatency t) threshold" "\<not> 10000 < startTime t + 50 + 500"
    "find (\<lambda>res. percentile res = target_percentile)
       (spec_estimate [1 / 2, 9 / 10, 1] (0, 9900) (startTime t + 50) (startTime t + 50 + 500)) = None"
  thus "ThrowTypeError = ReturnUndefined"
    using scenario_B_estimate [of "startTime t"] by simp
next
  fix t :: loop_state and l :: latency
  assume t: "0 \<le> startTime t \<and> js_gt (currentLatency t) threshold" "\<not> 10000 < startTime t + 50 + 500"
    and l: "find (\<lambda>res. percentile res = target_percentile)
       (spec_estimate [1 / 2, 9 / 10, 1] (0, 9900) (startTime t + 50) (startTime t + 50 + 500)) = Some l"
  from t have "l = \<lparr>percentile = 9 / 10, time = 9800 - startTime t\<rparr>"
    using scenario_B_estimate [of "startTime t"] l by simp
  with t show "0 \<le> startTime ((advance (spec_estimate [1 / 2, 9 / 10, 1] (0, 9900)) t)\<lparr>currentLatency := Num (time l)\<rparr>) \<and>
     js_gt (currentLatency ((advance (spec_estimate [1 / 2, 9 / 10, 1] (0, 9900)) t)\<lparr>currentLatency := Num (time l)\<rparr>)) threshold"
    by (simp add: advance_def threshold_def)
qed simp_all

text \<open>
  Claim C2 on scenario B (busy over \<open>[0, 9900]\<close>, trace end 10000): windows are tested,
  none passes, and the audit ends with the bare \<open>return;\<close> of line 96, so its promise
  resolves to \<open>undefined\<close> and the trail of samples is dropped.
\<close>

theorem exhausted_returns_undefined:
  "TTI_audit scenario_B = ReturnedUndefined \<and> estimator_calls scenario_B \<noteq> []"
proof -
  have vr: "visuallyReady scenario_B = Some \<lparr>progress = 85, frame_time = 1200\<rparr>"
    by (simp add: scenario_B_def scenario_A_def scenario_eval)
  have b: "bounds_max scenario_B = 10000" "fmp_rawValue scenario_B = 1000"
    "navStart scenario_B = 0"
    "riskToResponsiveness scenario_B = spec_estimate [1 / 2, 9 / 10, 1] (0, 9900)"
    by (simp_all add: scenario_B_def scenario_A_def)
  have "fst (search_loop (spec_estimate [1 / 2, 9 / 10, 1] (0, 9900)) 10000 (initial_state 1000 1200))
          = ReturnUndefined"
    by (rule scenario_B_loop) (simp_all add: initial_state_def)
  with b have "TTI_audit scenario_B = ReturnedUndefined"
    by (auto simp: TTI_audit_def vr split: prod.splits)
  moreover have "estimator_calls scenario_B \<noteq> []"
    using first_query [OF vr] by (simp add: b)
  ultimately show ?thesis by simp
qed

text \<open>
  Claim C3 on scenario C (the progress never reaches 85%): \<open>find\<close> returns
  \<open>undefined\<close>, line 78 reads \<open>.time\<close> of it and throws a \<open>TypeError\<close>; the loop is
  not reached, so no window is queried.
\<close>

theorem no_ready_sample_throws:
  "TTI_audit scenario_C = Threw TypeError \<and> estimator_calls scenario_C = [] \<and>
   loop_iterations scenario_C = 0"
  by (simp add: TTI_audit_search estimator_calls_def loop_iterations_def scenario_C_def
      scenario_A_def scenario_eval)

text \<open>
  Claim C5 on a window whose estimate equals the threshold: the loop condition is
  \<open>currentLatency > threshold\<close>, so an estimate of exactly 50 ends the search and the
  audit returns that window's start.
\<close>

theorem latency_at_threshold_ends_search:
  "TTI_audit scenario_E =
     Returned
       \<lparr>result_value = 1200, rawValue = 1200, optimalValue = ''TBD'',
        extendedInfo =
          \<lparr>timings = \<lparr>fMP = 1000, visuallyReadyT = 1200, mainThreadAvail = 1200\<rparr>,
           expectedLatencyAtTTI = Num 50,
           foundLatencies =
             [\<lparr>sample_estimate = Some \<lparr>percentile = 9 / 10, time = 50\<rparr>, sample_startTime = 1200\<rparr>]\<rparr>\<rparr>"
  by (simp add: TTI_audit_search audit_result_def scenario_E_def scenario_A_def scenario_eval)

section \<open>The start URL audit\<close>

lemma CacheStartUrl_audit_missing:
  assumes "Manifest artifacts = None \<or>
           (\<exists>node. Manifest artifacts = Some node \<and>
              (node_value node = None \<or>
               (\<exists>manifest. node_value node = Some manifest \<and> start_url manifest = None))) \<or>
           CacheContents artifacts = None \<or> URL artifacts = None \<or> URL artifacts = Some []"
  shows "CacheStartUrl_audit url_resolve artifacts = Returned False"
  using assms by (auto simp: CacheStartUrl_audit_def split: option.splits)

lemma CacheStartUrl_audit_present:
  assumes "Manifest artifacts = Some node" "node_value node = Some manifest"
    "start_url manifest = Some start" "CacheContents artifacts = Some cacheContents"
    "URL artifacts = Some baseURL" "baseURL \<noteq> []" "raw start = Some r"
  shows "CacheStartUrl_audit url_resolve artifacts =
           Returned (\<exists>req \<in> set cacheContents.
              req = url_resolve baseURL r \<or>
              req = replace_trailing_question (replace_utm (url_resolve baseURL r)))"
proof -
  have "(find (\<lambda>req. url_resolve baseURL r = req \<or>
            replace_trailing_question (replace_utm (url_resolve baseURL r)) = req) cacheContents \<noteq> None)
        = (\<exists>req \<in> set cacheContents.
              req = url_resolve baseURL r \<or>
              req = replace_trailing_question (replace_utm (url_resolve baseURL r)))"
    by (auto simp: find_None_iff)
  with assms show ?thesis
    by (simp add: CacheStartUrl_audit_def Let_def)
qed

text \<open>
  Claim C10 on a manifest whose \<open>start_url\<close> node has no \<open>raw\<close> string: every test of
  the guard passes, \<open>url.resolve\<close> is called with \<open>undefined\<close>, and the audit throws.
\<close>

theorem start_url_without_raw_throws:
  "CacheStartUrl_audit url_resolve no_raw = Threw TypeError"
  by (simp add: CacheStartUrl_audit_def no_raw_def)

end
